theory Spec2Isabelle
  imports Main "HOL-Library.Word"
begin

section \<open>Python values used by \<^verbatim>\<open>app/main.py\<close>\<close>

text \<open>
  Python strings are modelled as \<^typ>\<open>string\<close>; header values reach the program decoded
  as latin-1, so one character is one byte. Exceptions are values of \<open>exn\<close>; a function
  that can raise returns \<open>exn + 'a\<close> with \<open>Inl\<close> for the raised exception.
\<close>

datatype exn =
    HTTPException nat string
  | TypeError
  | ValueError
  | IndexError
  | NotFound
  | UnicodeDecodeError

text \<open>
  \<^verbatim>\<open>str.lower()\<close> on the ASCII letters; every other character is left as it is. The
  program compares lower-cased text with ASCII literals only (\<^verbatim>\<open>"bearer "\<close>,
  \<^verbatim>\<open>"true"\<close>), and no other character of a header value lower-cases to an ASCII letter.
\<close>

definition py_lower_char :: "char \<Rightarrow> char" where
  "py_lower_char c =
     (case map_of (zip ''ABCDEFGHIJKLMNOPQRSTUVWXYZ'' ''abcdefghijklmnopqrstuvwxyz'') c of
        Some l \<Rightarrow> l
      | None \<Rightarrow> c)"

definition py_lower :: "string \<Rightarrow> string" where
  "py_lower s = map py_lower_char s"

definition startswith :: "string \<Rightarrow> string \<Rightarrow> bool" where
  "startswith s p = (take (length p) s = p)"

text \<open>
  \<^verbatim>\<open>s.split(sep)\<close> for a one-character separator: every occurrence splits, so a string
  with \<open>n\<close> separators gives \<open>n + 1\<close> pieces.
\<close>

fun py_split :: "char \<Rightarrow> string \<Rightarrow> string list" where
  "py_split sep [] = [[]]"
| "py_split sep (c # cs) =
     (if c = sep then [] # py_split sep cs
      else (case py_split sep cs of
              w # ws \<Rightarrow> (c # w) # ws
            | [] \<Rightarrow> [[c]]))"

text \<open>\<^verbatim>\<open>s.split(sep, 1)\<close>: at most one split, at the first occurrence of the separator.\<close>

definition py_split1 :: "char \<Rightarrow> string \<Rightarrow> string list" where
  "py_split1 sep s =
     (case dropWhile (\<lambda>c. c \<noteq> sep) s of
        [] \<Rightarrow> [s]
      | _ # rest \<Rightarrow> [takeWhile (\<lambda>c. c \<noteq> sep) s, rest])"

text \<open>\<^verbatim>\<open>xs[i]\<close> for a non-negative index: out of range raises \<open>IndexError\<close>.\<close>

definition py_index :: "'a list \<Rightarrow> nat \<Rightarrow> exn + 'a" where
  "py_index xs i = (if i < length xs then Inr (xs ! i) else Inl IndexError)"

text \<open>
  \<^verbatim>\<open>str.strip()\<close> removes the characters for which \<^verbatim>\<open>str.isspace()\<close> holds; among
  the ASCII characters these are 9 to 13, 28 to 31 and 32.
\<close>

definition is_strip_space :: "char \<Rightarrow> bool" where
  "is_strip_space c =
     (let n = (of_char c :: nat) in (9 \<le> n \<and> n \<le> 13) \<or> (28 \<le> n \<and> n \<le> 32))"

definition py_strip :: "string \<Rightarrow> string" where
  "py_strip s = rev (dropWhile is_strip_space (rev (dropWhile is_strip_space s)))"

text \<open>\<^verbatim>\<open>str(n)\<close> for an integer: decimal digits, a leading minus sign when negative.\<close>

definition digit_char :: "nat \<Rightarrow> char" where
  "digit_char d = ''0123456789'' ! d"

fun nat_digits :: "nat \<Rightarrow> string" where
  "nat_digits n =
     (if n < 10 then [digit_char n] else nat_digits (n div 10) @ [digit_char (n mod 10)])"

definition py_str :: "int \<Rightarrow> string" where
  "py_str i = (if i < 0 then CHR ''-'' # nat_digits (nat (- i)) else nat_digits (nat i))"

text \<open>
  \<^verbatim>\<open>int(x)\<close> for \<open>x\<close> a string or \<^verbatim>\<open>None\<close>. \<^verbatim>\<open>int(None)\<close> raises \<open>TypeError\<close>. A
  string is accepted when, between optional leading and trailing whitespace (characters
  9 to 13 and 32), it is an optional sign followed by decimal digits, where single
  underscores may stand between two digits; anything else raises \<open>ValueError\<close>. The
  model covers ASCII text.
\<close>

definition is_space :: "char \<Rightarrow> bool" where
  "is_space c = (let n = (of_char c :: nat) in (9 \<le> n \<and> n \<le> 13) \<or> n = 32)"

definition digit_val :: "char \<Rightarrow> nat option" where
  "digit_val c = map_of (zip ''0123456789'' [0, 1, 2, 3, 4, 5, 6, 7, 8, 9]) c"

fun scan_digits :: "nat \<Rightarrow> string \<Rightarrow> nat option" where
  "scan_digits acc [] = Some acc"
| "scan_digits acc [c] =
     (case digit_val c of Some d \<Rightarrow> Some (10 * acc + d) | None \<Rightarrow> None)"
| "scan_digits acc (c # c' # cs) =
     (case digit_val c of
        Some d \<Rightarrow> scan_digits (10 * acc + d) (c' # cs)
      | None \<Rightarrow>
          (if c = CHR ''_'' then
             (case digit_val c' of
                Some d \<Rightarrow> scan_digits (10 * acc + d) cs
              | None \<Rightarrow> None)
           else None))"

definition py_int_str :: "string \<Rightarrow> exn + int" where
  "py_int_str s =
     (let t = dropWhile is_space s;
          neg = (case t of c # _ \<Rightarrow> c = CHR ''-'' | [] \<Rightarrow> False);
          u = (case t of c # r \<Rightarrow> if c = CHR ''-'' \<or> c = CHR ''+'' then r else t | [] \<Rightarrow> t);
          body = rev (dropWhile is_space (rev u))
      in case body of
           [] \<Rightarrow> Inl ValueError
         | c # cs \<Rightarrow>
             (case digit_val c of
                None \<Rightarrow> Inl ValueError
              | Some d \<Rightarrow>
                  (case scan_digits d cs of
                     None \<Rightarrow> Inl ValueError
                   | Some n \<Rightarrow> Inr (if neg then - int n else int n))))"

definition py_int :: "string option \<Rightarrow> exn + int" where
  "py_int v = (case v of None \<Rightarrow> Inl TypeError | Some s \<Rightarrow> py_int_str s)"

section \<open>Configuration read at start-up\<close>

text \<open>
  \<open>JWT_SECRET\<close>, \<open>ALLOW_ACTIONS\<close> and \<open>PORT_HINTS\<close> are module-level values computed
  once from the environment (\<^verbatim>\<open>os.getenv\<close>); the environment is a map from variable
  names to values.
\<close>

record config =
  JWT_SECRET :: "string option"
  ALLOW_ACTIONS :: bool
  PORT_HINTS :: "string list"

definition getenv_default :: "(string \<rightharpoonup> string) \<Rightarrow> string \<Rightarrow> string \<Rightarrow> string" where
  "getenv_default env k d = (case env k of Some v \<Rightarrow> v | None \<Rightarrow> d)"

definition config_of_env :: "(string \<rightharpoonup> string) \<Rightarrow> config" where
  "config_of_env env =
     \<lparr> JWT_SECRET = env ''DOCKTILES_JWT_SECRET'',
       ALLOW_ACTIONS = (py_lower (getenv_default env ''DOCKTILES_ALLOW_ACTIONS'' ''true'') = ''true''),
       PORT_HINTS =
         filter (\<lambda>p. p \<noteq> [])
           (map py_strip
              (py_split CHR '',''
                 (getenv_default env ''DOCKTILES_HTTP_SCHEMES''
                    ''8080,3000,80,5000,8000,8888,9090''))) \<rparr>"

section \<open>View model\<close>

record PortInfo =
  host :: string
  port :: int

record ContainerDTO =
  dto_id :: string
  dto_name :: string
  dto_image :: string
  dto_status :: string
  dto_state :: string
  dto_ports :: "PortInfo list"

section \<open>Port heuristic\<close>

text \<open>
  The comprehension \<^verbatim>\<open>[p for hint in PORT_HINTS for p in ports if str(p.port) == hint]\<close>
  is two nested loops: \<open>scan_ports\<close> is the inner loop over the ports for one hint,
  \<open>hinted\<close> the outer loop over the hints.
\<close>

fun scan_ports :: "string \<Rightarrow> PortInfo list \<Rightarrow> PortInfo list" where
  "scan_ports hint [] = []"
| "scan_ports hint (p # ps) =
     (if py_str (port p) = hint then p # scan_ports hint ps else scan_ports hint ps)"

fun hinted :: "string list \<Rightarrow> PortInfo list \<Rightarrow> PortInfo list" where
  "hinted [] ports = []"
| "hinted (hint # hints) ports = scan_ports hint ports @ hinted hints ports"

definition find_first_http_port :: "string list \<Rightarrow> PortInfo list \<Rightarrow> PortInfo option" where
  "find_first_http_port hints ports =
     (case ports of
        [] \<Rightarrow> None
      | p0 # _ \<Rightarrow>
          (case hinted hints ports of
             [] \<Rightarrow> Some p0
           | h # _ \<Rightarrow> Some h))"

section \<open>Runtime inspection data\<close>

text \<open>
  A container object of the runtime client, as far as \<^verbatim>\<open>app/main.py\<close> reads it. The
  \<^verbatim>\<open>attrs\<close> dictionary is the inspection record; a key that may be missing is an
  \<open>option\<close> field (\<open>None\<close>: the key is not there). The values under \<^verbatim>\<open>HostIp\<close>
  and \<^verbatim>\<open>HostPort\<close> are strings, as the runtime's API reports them. The \<^verbatim>\<open>Ports\<close>
  dictionary keeps the order in which the runtime reported its keys, so it is an
  association list; the value under a key is a list of bindings or \<^verbatim>\<open>null\<close> (\<open>None\<close>).
\<close>

record binding =
  HostIp :: "string option"
  HostPort :: "string option"

type_synonym port_map = "(string \<times> binding list option) list"

record network_settings =
  Ports :: "port_map option"

record state_attrs =
  Status :: "string option"

record config_attrs =
  Image :: "string option"

record container_attrs =
  State :: "state_attrs option"
  Config :: "config_attrs option"
  NetworkSettings :: "network_settings option"

record image_obj =
  tags :: "string list"
  image_short_id :: string

record container =
  short_id :: string
  name :: string
  status :: string
  attrs :: container_attrs
  c_image :: image_obj

section \<open>Port extraction\<close>

text \<open>
  \<open>scan_bindings\<close> is the inner loop of \<^verbatim>\<open>_extract_published_ports\<close> over the bindings
  of one key, \<open>scan_port_map\<close> the outer loop over the items of the port map; both carry
  the list \<^verbatim>\<open>ports\<close> that the source appends to. The \<^verbatim>\<open>except\<close> clause catches
  \<open>TypeError\<close> and \<open>ValueError\<close> only: any other exception leaves the function.
\<close>

definition caught :: "exn \<Rightarrow> bool" where
  "caught e = (e = TypeError \<or> e = ValueError)"

fun scan_bindings :: "binding list \<Rightarrow> PortInfo list \<Rightarrow> exn + PortInfo list" where
  "scan_bindings [] ports = Inr ports"
| "scan_bindings (b # bs) ports =
     (let host' = (case HostIp b of None \<Rightarrow> ''127.0.0.1'' | Some h \<Rightarrow> h) in
      case py_int (HostPort b) of
        Inl e \<Rightarrow> (if caught e then scan_bindings bs ports else Inl e)
      | Inr port' \<Rightarrow> scan_bindings bs (ports @ [\<lparr>host = host', port = port'\<rparr>]))"

fun scan_port_map :: "port_map \<Rightarrow> PortInfo list \<Rightarrow> exn + PortInfo list" where
  "scan_port_map [] ports = Inr ports"
| "scan_port_map ((container_port, bindings) # items) ports =
     (case bindings of
        None \<Rightarrow> scan_port_map items ports
      | Some bs \<Rightarrow>
          (if bs = [] then scan_port_map items ports
           else (case scan_bindings bs ports of
                   Inl e \<Rightarrow> Inl e
                 | Inr ports' \<Rightarrow> scan_port_map items ports')))"

text \<open>
  \<^verbatim>\<open>net.get("Ports", {}) or {}\<close> where \<^verbatim>\<open>net = c.attrs.get("NetworkSettings", {})\<close>: a
  missing, \<^verbatim>\<open>null\<close> or empty \<^verbatim>\<open>Ports\<close> gives the empty map.
\<close>

definition port_map_of :: "container \<Rightarrow> port_map" where
  "port_map_of c =
     (case NetworkSettings (attrs c) of
        None \<Rightarrow> []
      | Some net \<Rightarrow> (case Ports net of None \<Rightarrow> [] | Some pm \<Rightarrow> pm))"

definition extract_published_ports :: "container \<Rightarrow> exn + PortInfo list" where
  "extract_published_ports c = scan_port_map (port_map_of c) []"

section \<open>View-model builder\<close>

text \<open>
  \<^verbatim>\<open>_dto\<close> first calls \<^verbatim>\<open>c.reload()\<close>, which refreshes \<^verbatim>\<open>c.attrs\<close> from the runtime;
  the argument of \<open>dto\<close> is the container after that refresh. The default passed to
  \<^verbatim>\<open>.get("Image", ...)\<close> is computed before the lookup, whether or not it is used.
\<close>

definition dto :: "container \<Rightarrow> exn + ContainerDTO" where
  "dto c =
     (let state' =
            (case State (attrs c) of
               None \<Rightarrow> ''unknown''
             | Some st \<Rightarrow> (case Status st of None \<Rightarrow> ''unknown'' | Some s \<Rightarrow> s));
          fallback =
            (case tags (c_image c) of
               t # _ \<Rightarrow> t
             | [] \<Rightarrow> image_short_id (c_image c));
          image' =
            (case Config (attrs c) of
               None \<Rightarrow> fallback
             | Some cf \<Rightarrow> (case Image cf of None \<Rightarrow> fallback | Some i \<Rightarrow> i))
      in case extract_published_ports c of
           Inl e \<Rightarrow> Inl e
         | Inr ports' \<Rightarrow>
             Inr \<lparr> dto_id = short_id c, dto_name = name c, dto_image = image',
                   dto_status = status c, dto_state = state', dto_ports = ports' \<rparr>)"

section \<open>Access gate\<close>

text \<open>
  The request headers are a list of name and value pairs; a lookup ignores the case of
  the name and returns the first match. \<open>py_or\<close> is Python's \<^verbatim>\<open>or\<close> on optional
  strings: the left operand when it is truthy (present and not empty), else the right.
\<close>

record request =
  headers :: "(string \<times> string) list"

definition headers_get :: "request \<Rightarrow> string \<Rightarrow> string option" where
  "headers_get req k = map_of (map (\<lambda>(n, v). (py_lower n, v)) (headers req)) (py_lower k)"

definition truthy :: "string option \<Rightarrow> bool" where
  "truthy v = (case v of None \<Rightarrow> False | Some s \<Rightarrow> s \<noteq> [])"

definition py_or :: "string option \<Rightarrow> string option \<Rightarrow> string option" where
  "py_or a b = (if truthy a then a else b)"

definition require_auth :: "string option \<Rightarrow> request \<Rightarrow> exn + unit" where
  "require_auth secret req =
     (if \<not> truthy secret then Inr ()
      else
        (let auth = py_or (headers_get req ''authorization'') (headers_get req ''Authorization'') in
         case auth of
           None \<Rightarrow> Inl (HTTPException 401 ''Missing bearer token'')
         | Some a \<Rightarrow>
             (if a = [] \<or> \<not> startswith (py_lower a) ''bearer ''
              then Inl (HTTPException 401 ''Missing bearer token'')
              else
                (case py_index (py_split1 CHR '' '' a) 1 of
                   Inl e \<Rightarrow> Inl e
                 | Inr token \<Rightarrow>
                     (if Some token \<noteq> secret
                      then Inl (HTTPException 403 ''Invalid token'')
                      else Inr ())))))"

section \<open>Decoding log bytes\<close>

text \<open>
  \<^verbatim>\<open>bytes.decode(errors=...)\<close> with the default encoding UTF-8. \<open>utf8_step b rest\<close> looks
  at the sequence starting with the byte \<open>b\<close>: it gives the decoded code point and the
  number of bytes of a well-formed sequence, or no code point and the number of bytes of
  the ill-formed part (the start byte and the continuation bytes accepted so far). On an
  ill-formed part the handler \<open>Strict\<close> raises \<open>UnicodeDecodeError\<close>; \<open>Ignore\<close> drops
  the part and goes on behind it.
\<close>

type_synonym byte = "8 word"

datatype errors = Strict | Ignore

definition is_cont :: "byte \<Rightarrow> bool" where
  "is_cont b = (0x80 \<le> b \<and> b \<le> 0xBF)"

definition utf8_step :: "byte \<Rightarrow> byte list \<Rightarrow> nat option \<times> nat" where
  "utf8_step b rest =
     (if b < 0x80 then (Some (unat b), 1)
      else if b < 0xC2 then (None, 1)
      else if b < 0xE0 then
        (case rest of
           [] \<Rightarrow> (None, 1)
         | c1 # _ \<Rightarrow>
             if is_cont c1 then (Some ((unat b - 0xC0) * 64 + (unat c1 - 0x80)), 2)
             else (None, 1))
      else if b < 0xF0 then
        (case rest of
           [] \<Rightarrow> (None, 1)
         | c1 # r1 \<Rightarrow>
             if \<not> is_cont c1 \<or> (if c1 < 0xA0 then b = 0xE0 else b = 0xED) then (None, 1)
             else
               (case r1 of
                  [] \<Rightarrow> (None, 2)
                | c2 # _ \<Rightarrow>
                    if is_cont c2
                    then (Some (((unat b - 0xE0) * 64 + (unat c1 - 0x80)) * 64
                                + (unat c2 - 0x80)), 3)
                    else (None, 2)))
      else if b < 0xF5 then
        (case rest of
           [] \<Rightarrow> (None, 1)
         | c1 # r1 \<Rightarrow>
             if \<not> is_cont c1 \<or> (if c1 < 0x90 then b = 0xF0 else b = 0xF4) then (None, 1)
             else
               (case r1 of
                  [] \<Rightarrow> (None, 2)
                | c2 # r2 \<Rightarrow>
                    if \<not> is_cont c2 then (None, 2)
                    else
                      (case r2 of
                         [] \<Rightarrow> (None, 3)
                       | c3 # _ \<Rightarrow>
                           if is_cont c3
                           then (Some ((((unat b - 0xF0) * 64 + (unat c1 - 0x80)) * 64
                                        + (unat c2 - 0x80)) * 64 + (unat c3 - 0x80)), 4)
                           else (None, 3))))
      else (None, 1))"

fun py_decode :: "errors \<Rightarrow> byte list \<Rightarrow> exn + nat list" where
  "py_decode h [] = Inr []"
| "py_decode h (b # rest) =
     (case utf8_step b rest of
        (Some cp, n) \<Rightarrow>
          (case py_decode h (drop (n - 1) rest) of
             Inl e \<Rightarrow> Inl e
           | Inr cps \<Rightarrow> Inr (cp # cps))
      | (None, n) \<Rightarrow>
          (case h of
             Strict \<Rightarrow> Inl UnicodeDecodeError
           | Ignore \<Rightarrow> py_decode h (drop (n - 1) rest)))"

section \<open>Runtime client and endpoints\<close>

text \<open>
  The runtime client is the state the endpoints act on: the containers it knows by name,
  the log bytes it returns for a container and a tail length, and the list of the calls
  made to it so far, oldest first. \<^verbatim>\<open>containers.get\<close> raises \<open>NotFound\<close> for an unknown
  name. An endpoint returns its response, or the exception it raised, together with the
  runtime after it.
\<close>

datatype call =
    Get string
  | Start string
  | Stop string
  | Restart string
  | Logs string int

record runtime =
  rt_containers :: "(string \<times> container) list"
  rt_logs :: "string \<Rightarrow> int \<Rightarrow> byte list"
  rt_calls :: "call list"

datatype response = OkJson | PlainText "nat list"

definition record_call :: "call \<Rightarrow> runtime \<Rightarrow> runtime" where
  "record_call k rt = rt\<lparr>rt_calls := rt_calls rt @ [k]\<rparr>"

definition containers_get :: "runtime \<Rightarrow> string \<Rightarrow> (exn + container) \<times> runtime" where
  "containers_get rt nm =
     (case map_of (rt_containers rt) nm of
        None \<Rightarrow> (Inl NotFound, record_call (Get nm) rt)
      | Some c \<Rightarrow> (Inr c, record_call (Get nm) rt))"

text \<open>
  \<^verbatim>\<open>c.start()\<close>, \<^verbatim>\<open>c.stop()\<close>, \<^verbatim>\<open>c.restart()\<close> and \<^verbatim>\<open>c.logs(tail=...)\<close> are calls
  to the runtime for the container \<open>c\<close>.
\<close>

definition container_start :: "container \<Rightarrow> runtime \<Rightarrow> runtime" where
  "container_start c rt = record_call (Start (name c)) rt"

definition container_stop :: "container \<Rightarrow> runtime \<Rightarrow> runtime" where
  "container_stop c rt = record_call (Stop (name c)) rt"

definition container_restart :: "container \<Rightarrow> runtime \<Rightarrow> runtime" where
  "container_restart c rt = record_call (Restart (name c)) rt"

definition container_fetch_logs :: "container \<Rightarrow> int \<Rightarrow> runtime \<Rightarrow> byte list \<times> runtime" where
  "container_fetch_logs c n rt = (rt_logs rt (name c) n, record_call (Logs (name c) n) rt)"

text \<open>
  The endpoints. \<^verbatim>\<open>Depends(require_auth)\<close> runs before the body of an endpoint: when it
  raises, the body does not run.
\<close>

definition start_container ::
  "config \<Rightarrow> request \<Rightarrow> string \<Rightarrow> runtime \<Rightarrow> (exn + response) \<times> runtime" where
  "start_container cfg req nm rt =
     (case require_auth (JWT_SECRET cfg) req of
        Inl e \<Rightarrow> (Inl e, rt)
      | Inr _ \<Rightarrow>
          (if \<not> ALLOW_ACTIONS cfg then (Inl (HTTPException 403 ''Actions disabled''), rt)
           else
             (case containers_get rt nm of
                (Inl e, rt1) \<Rightarrow> (Inl e, rt1)
              | (Inr c, rt1) \<Rightarrow> (Inr OkJson, container_start c rt1))))"

definition stop_container ::
  "config \<Rightarrow> request \<Rightarrow> string \<Rightarrow> runtime \<Rightarrow> (exn + response) \<times> runtime" where
  "stop_container cfg req nm rt =
     (case require_auth (JWT_SECRET cfg) req of
        Inl e \<Rightarrow> (Inl e, rt)
      | Inr _ \<Rightarrow>
          (if \<not> ALLOW_ACTIONS cfg then (Inl (HTTPException 403 ''Actions disabled''), rt)
           else
             (case containers_get rt nm of
                (Inl e, rt1) \<Rightarrow> (Inl e, rt1)
              | (Inr c, rt1) \<Rightarrow> (Inr OkJson, container_stop c rt1))))"

definition restart_container ::
  "config \<Rightarrow> request \<Rightarrow> string \<Rightarrow> runtime \<Rightarrow> (exn + response) \<times> runtime" where
  "restart_container cfg req nm rt =
     (case require_auth (JWT_SECRET cfg) req of
        Inl e \<Rightarrow> (Inl e, rt)
      | Inr _ \<Rightarrow>
          (if \<not> ALLOW_ACTIONS cfg then (Inl (HTTPException 403 ''Actions disabled''), rt)
           else
             (case containers_get rt nm of
                (Inl e, rt1) \<Rightarrow> (Inl e, rt1)
              | (Inr c, rt1) \<Rightarrow> (Inr OkJson, container_restart c rt1))))"

text \<open>
  \<^verbatim>\<open>container_logs\<close>: the query parameter \<^verbatim>\<open>tail\<close> is \<open>None\<close> when the request does not
  give it, and then takes its default 200.
\<close>

definition container_logs ::
  "config \<Rightarrow> request \<Rightarrow> string \<Rightarrow> int option \<Rightarrow> runtime \<Rightarrow> (exn + response) \<times> runtime" where
  "container_logs cfg req nm tail_param rt =
     (let tail = (case tail_param of None \<Rightarrow> 200 | Some n \<Rightarrow> n) in
      case require_auth (JWT_SECRET cfg) req of
        Inl e \<Rightarrow> (Inl e, rt)
      | Inr _ \<Rightarrow>
          (case containers_get rt nm of
             (Inl e, rt1) \<Rightarrow> (Inl e, rt1)
           | (Inr c, rt1) \<Rightarrow>
               (case container_fetch_logs c tail rt1 of
                  (raw, rt2) \<Rightarrow>
                    (case py_decode Ignore raw of
                       Inl e \<Rightarrow> (Inl e, rt2)
                     | Inr logs \<Rightarrow> (Inr (PlainText logs), rt2)))))"

section \<open>Notation and example data\<close>

text \<open>
  Two abbreviations for stating what the extraction returns: \<open>emitted b\<close> is the port
  information the loop body appends for the binding \<open>b\<close>, if it appends any, and
  \<open>entries pm\<close> is the list of all bindings of the port map \<open>pm\<close>, key by key in the order
  of the map.
\<close>

abbreviation (input) emitted :: "binding \<Rightarrow> PortInfo option" where
  "emitted \<equiv> (\<lambda>b. case py_int (HostPort b) of
                 Inl _ \<Rightarrow> None
               | Inr n \<Rightarrow> Some \<lparr>host = (case HostIp b of None \<Rightarrow> ''127.0.0.1'' | Some h \<Rightarrow> h), port = n\<rparr>)"

abbreviation (input) entries :: "port_map \<Rightarrow> binding list" where
  "entries \<equiv> (\<lambda>pm. concat (map (\<lambda>(k, bindings). case bindings of None \<Rightarrow> [] | Some bs \<Rightarrow> bs) pm))"

text \<open>
  Concrete inputs: a container publishing ports (one binding with a host port that is
  not a number, one repeated binding, one without a host IP, one without a host port, a
  key with \<^verbatim>\<open>null\<close> and a key with an empty list), a container whose configured image
  reference is the empty string, a container with neither a configured image reference
  nor tags, a runtime whose log bytes for \<^verbatim>\<open>web\<close> hold ill-formed UTF-8, a configuration
  with a secret and actions disabled, and a configuration without a secret.
\<close>

definition web_container :: container where
  "web_container =
     \<lparr> short_id = ''0f3a9c1d2b'', name = ''web'', status = ''running'',
       attrs =
         \<lparr> State = Some \<lparr>Status = Some ''running''\<rparr>,
           Config = None,
           NetworkSettings =
             Some \<lparr>Ports = Some
               [(''80/tcp'',
                   Some [\<lparr>HostIp = Some ''0.0.0.0'', HostPort = Some ''8080''\<rparr>,
                         \<lparr>HostIp = Some ''::'', HostPort = Some ''http''\<rparr>,
                         \<lparr>HostIp = Some ''0.0.0.0'', HostPort = Some ''8080''\<rparr>]),
                (''443/tcp'', None),
                (''53/udp'', Some []),
                (''22/tcp'', Some [\<lparr>HostIp = None, HostPort = Some ''22''\<rparr>,
                                  \<lparr>HostIp = Some ''10.0.0.1'', HostPort = None\<rparr>])]\<rparr> \<rparr>,
       c_image = \<lparr>tags = [''nginx:latest''], image_short_id = ''sha256:605c77e624''\<rparr> \<rparr>"

definition blank_image_container :: container where
  "blank_image_container =
     \<lparr> short_id = ''7b1e44a90c'', name = ''job'', status = ''exited'',
       attrs =
         \<lparr> State = None,
           Config = Some \<lparr>Image = Some ''''\<rparr>,
           NetworkSettings = None \<rparr>,
       c_image = \<lparr>tags = [''nginx:latest''], image_short_id = ''sha256:605c77e624''\<rparr> \<rparr>"

definition untagged_container :: container where
  "untagged_container =
     \<lparr> short_id = ''51c0aa2f3e'', name = ''tmp'', status = ''created'',
       attrs = \<lparr> State = None, Config = Some \<lparr>Image = None\<rparr>, NetworkSettings = None \<rparr>,
       c_image = \<lparr>tags = [], image_short_id = ''sha256:605c77e624''\<rparr> \<rparr>"

definition demo_runtime :: runtime where
  "demo_runtime =
     \<lparr> rt_containers = [(''web'', web_container)],
       rt_logs = (\<lambda>nm n. if nm = ''web'' then [0x6F, 0x6B, 0xFF, 0xC3, 0xA9, 0xE2, 0x82, 0x0A] else []),
       rt_calls = [] \<rparr>"

definition locked_config :: config where
  "locked_config = \<lparr> JWT_SECRET = Some ''s3cret'', ALLOW_ACTIONS = False, PORT_HINTS = [''8080''] \<rparr>"

definition open_config :: config where
  "open_config = \<lparr> JWT_SECRET = None, ALLOW_ACTIONS = True, PORT_HINTS = [''8080''] \<rparr>"

section \<open>Properties of the port heuristic\<close>

lemma scan_ports_filter: "scan_ports hint ports = filter (\<lambda>p. py_str (port p) = hint) ports"
  by (induction ports) simp_all

lemma hinted_concat:
  "hinted hints ports = concat (map (\<lambda>hint. filter (\<lambda>p. py_str (port p) = hint) ports) hints)"
  by (induction hints) (simp_all add: scan_ports_filter)

lemma hinted_subset: "set (hinted hints ports) \<subseteq> set ports"
  by (auto simp: hinted_concat)

lemma hinted_Nil_iff:
  "hinted hints ports = [] \<longleftrightarrow> (\<forall>h\<in>set hints. \<forall>p\<in>set ports. py_str (port p) \<noteq> h)"
  by (auto simp: hinted_concat filter_empty_conv)

lemma find_hd_filter: "filter P xs \<noteq> [] \<Longrightarrow> find P xs = Some (hd (filter P xs))"
  by (induction xs) (auto split: if_splits)

lemma hinted_first:
  assumes "find (\<lambda>h. \<exists>p\<in>set ports. py_str (port p) = h) hints = Some h"
  shows "hinted hints ports \<noteq> [] \<and>
         Some (hd (hinted hints ports)) = find (\<lambda>p. py_str (port p) = h) ports"
  using assms
proof (induction hints)
  case Nil
  then show ?case by simp
next
  case (Cons a hints)
  show ?case
  proof (cases "\<exists>p\<in>set ports. py_str (port p) = a")
    case True
    with Cons.prems have ha: "h = a" by simp
    from True have ne: "filter (\<lambda>p. py_str (port p) = a) ports \<noteq> []"
      by (simp add: filter_empty_conv)
    then show ?thesis
      by (simp add: scan_ports_filter ha find_hd_filter)
  next
    case False
    then have e: "scan_ports a ports = []"
      by (simp add: scan_ports_filter filter_empty_conv)
    from False Cons.prems have "find (\<lambda>h. \<exists>p\<in>set ports. py_str (port p) = h) hints = Some h"
      by simp
    from Cons.IH [OF this] show ?thesis by (simp add: e)
  qed
qed

lemma hinted_nonempty_find:
  "hinted hints ports \<noteq> [] \<Longrightarrow>
     \<exists>h. find (\<lambda>h. \<exists>p\<in>set ports. py_str (port p) = h) hints = Some h"
  by (cases "find (\<lambda>h. \<exists>p\<in>set ports. py_str (port p) = h) hints")
     (auto simp: hinted_Nil_iff find_None_iff)

lemma find_first_http_port_hinted:
  "ports \<noteq> [] \<Longrightarrow> hinted hints ports \<noteq> [] \<Longrightarrow>
     find_first_http_port hints ports = Some (hd (hinted hints ports))"
  by (cases ports; cases "hinted hints ports") (simp_all add: find_first_http_port_def)

text \<open>
  Claim C1. For a non-empty list of ports, the candidate list \<open>hinted\<close> is the
  concatenation, hint by hint in the order of the preference list, of the ports whose
  number rendered as a string equals the hint, each group in the order of the ports.
  When that list is not empty the heuristic returns its first element, which is the
  first port, in the order of the ports, that matches the first hint matched by any port.
\<close>

theorem find_first_http_port_prefers_hints:
  "ports \<noteq> [] \<Longrightarrow>
     hinted hints ports =
       concat (map (\<lambda>hint. filter (\<lambda>p. py_str (port p) = hint) ports) hints) \<and>
     (hinted hints ports \<noteq> [] \<longrightarrow>
        find_first_http_port hints ports = Some (hd (hinted hints ports)) \<and>
        (\<exists>h. find (\<lambda>h. \<exists>p\<in>set ports. py_str (port p) = h) hints = Some h \<and>
             find_first_http_port hints ports = find (\<lambda>p. py_str (port p) = h) ports))"
proof (intro conjI impI)
  show "hinted hints ports =
       concat (map (\<lambda>hint. filter (\<lambda>p. py_str (port p) = hint) ports) hints)"
    by (rule hinted_concat)
next
  assume "ports \<noteq> []" "hinted hints ports \<noteq> []"
  then show "find_first_http_port hints ports = Some (hd (hinted hints ports))"
    by (rule find_first_http_port_hinted)
next
  assume p: "ports \<noteq> []" and ne: "hinted hints ports \<noteq> []"
  from hinted_nonempty_find [OF ne] obtain h
    where h: "find (\<lambda>h. \<exists>p\<in>set ports. py_str (port p) = h) hints = Some h" ..
  from hinted_first [OF h] find_first_http_port_hinted [OF p ne]
  have "find_first_http_port hints ports = find (\<lambda>p. py_str (port p) = h) ports" by simp
  with h show "\<exists>h. find (\<lambda>h. \<exists>p\<in>set ports. py_str (port p) = h) hints = Some h \<and>
             find_first_http_port hints ports = find (\<lambda>p. py_str (port p) = h) ports"
    by blast
qed

text \<open>
  Claim C7. The heuristic returns nothing for the empty list of ports; for a non-empty
  list in which no port matches any hint it returns the first port of the list.
\<close>

theorem find_first_http_port_fallback:
  "find_first_http_port hints [] = None \<and>
   (ports \<noteq> [] \<and> (\<forall>p\<in>set ports. \<forall>h\<in>set hints. py_str (port p) \<noteq> h) \<longrightarrow>
      find_first_http_port hints ports = Some (hd ports))"
proof (intro conjI impI)
  show "find_first_http_port hints [] = None" by (simp add: find_first_http_port_def)
next
  assume a: "ports \<noteq> [] \<and> (\<forall>p\<in>set ports. \<forall>h\<in>set hints. py_str (port p) \<noteq> h)"
  then have "hinted hints ports = []" by (auto simp: hinted_Nil_iff)
  with a show "find_first_http_port hints ports = Some (hd ports)"
    by (cases ports) (simp_all add: find_first_http_port_def)
qed

text \<open>
  Claim C9. The heuristic returns nothing exactly when the list of ports is empty, and
  a port it returns is an element of the list it was given.
\<close>

theorem find_first_http_port_member:
  "(find_first_http_port hints ports = None \<longleftrightarrow> ports = []) \<and>
   (\<forall>p. find_first_http_port hints ports = Some p \<longrightarrow> p \<in> set ports)"
proof (cases ports)
  case Nil
  then show ?thesis by (simp add: find_first_http_port_def)
next
  case (Cons p0 rest)
  show ?thesis
  proof (cases "hinted hints ports")
    case Nil
    with Cons show ?thesis by (simp add: find_first_http_port_def)
  next
    case (Cons h hs)
    then have "h \<in> set ports" using hinted_subset [of hints ports] by auto
    with Cons \<open>ports = p0 # rest\<close> show ?thesis by (auto simp: find_first_http_port_def)
  qed
qed

theorem find_first_http_port_prefers_hints_witness:
  "[\<lparr>host = ''0.0.0.0'', port = 8000\<rparr>, \<lparr>host = ''0.0.0.0'', port = 3000\<rparr>] \<noteq> [] \<and>
   hinted [''8080'', ''3000'']
     [\<lparr>host = ''0.0.0.0'', port = 8000\<rparr>, \<lparr>host = ''0.0.0.0'', port = 3000\<rparr>] =
     [\<lparr>host = ''0.0.0.0'', port = 3000\<rparr>] \<and>
   find_first_http_port [''8080'', ''3000'']
     [\<lparr>host = ''0.0.0.0'', port = 8000\<rparr>, \<lparr>host = ''0.0.0.0'', port = 3000\<rparr>] =
     Some \<lparr>host = ''0.0.0.0'', port = 3000\<rparr>"
proof -
  let ?ports = "[\<lparr>host = ''0.0.0.0'', port = 8000\<rparr>, \<lparr>host = ''0.0.0.0'', port = 3000\<rparr>]"
  have ne: "?ports \<noteq> []" by simp
  have h: "hinted [''8080'', ''3000''] ?ports = [\<lparr>host = ''0.0.0.0'', port = 3000\<rparr>]"
    by (simp add: py_str_def digit_char_def)
  have b: "hinted [''8080'', ''3000''] ?ports \<noteq> []" unfolding h by simp
  have r: "find_first_http_port [''8080'', ''3000''] ?ports =
           Some (hd (hinted [''8080'', ''3000''] ?ports))"
    by (rule find_first_http_port_prefers_hints [OF ne, THEN conjunct2, THEN mp, OF b, THEN conjunct1])
  show ?thesis
  proof (intro conjI)
    show "?ports \<noteq> []" by (rule ne)
    show "hinted [''8080'', ''3000''] ?ports = [\<lparr>host = ''0.0.0.0'', port = 3000\<rparr>]"
      by (rule h)
    show "find_first_http_port [''8080'', ''3000''] ?ports =
          Some \<lparr>host = ''0.0.0.0'', port = 3000\<rparr>"
      unfolding r h by simp
  qed
qed

theorem find_first_http_port_fallback_witness:
  "find_first_http_port (PORT_HINTS (config_of_env Map.empty)) [] = None \<and>
   find_first_http_port (PORT_HINTS (config_of_env Map.empty))
     [\<lparr>host = ''0.0.0.0'', port = 22\<rparr>, \<lparr>host = ''0.0.0.0'', port = 6379\<rparr>] =
     Some \<lparr>host = ''0.0.0.0'', port = 22\<rparr>"
proof -
  let ?ports = "[\<lparr>host = ''0.0.0.0'', port = 22\<rparr>, \<lparr>host = ''0.0.0.0'', port = 6379\<rparr>]"
  let ?hints = "PORT_HINTS (config_of_env Map.empty)"
  have hints: "?hints = [''8080'', ''3000'', ''80'', ''5000'', ''8000'', ''8888'', ''9090'']"
    by (simp add: config_of_env_def getenv_default_def py_strip_def is_strip_space_def)
  have pre: "?ports \<noteq> [] \<and> (\<forall>p\<in>set ?ports. \<forall>h\<in>set ?hints. py_str (port p) \<noteq> h)"
    unfolding hints by (simp add: py_str_def digit_char_def)
  from find_first_http_port_fallback [of ?hints ?ports] pre show ?thesis by simp
qed

theorem find_first_http_port_member_witness:
  "find_first_http_port [''8080''] [] = None \<and>
   find_first_http_port [''8080''] [\<lparr>host = ''::'', port = 443\<rparr>] \<noteq> None \<and>
   \<lparr>host = ''::'', port = 443\<rparr> \<in> set [\<lparr>host = ''::'', port = 443\<rparr>]"
proof -
  have s: "find_first_http_port [''8080''] [\<lparr>host = ''::'', port = 443\<rparr>] =
           Some \<lparr>host = ''::'', port = 443\<rparr>"
    by (simp add: find_first_http_port_def py_str_def digit_char_def)
  from find_first_http_port_member [of "[''8080'']" "[\<lparr>host = ''::'', port = 443\<rparr>]"] s
  have "\<lparr>host = ''::'', port = 443\<rparr> \<in> set [\<lparr>host = ''::'', port = 443\<rparr>]" by blast
  moreover from find_first_http_port_member [of "[''8080'']" "[]"] have "find_first_http_port [''8080''] [] = None" by simp
  moreover from find_first_http_port_member [of "[''8080'']" "[\<lparr>host = ''::'', port = 443\<rparr>]"]
  have "find_first_http_port [''8080''] [\<lparr>host = ''::'', port = 443\<rparr>] \<noteq> None" by simp
  ultimately show ?thesis by simp
qed

section \<open>Properties of the port extraction\<close>

lemma py_int_str_caught: "py_int_str s = Inl e \<Longrightarrow> e = ValueError"
  by (auto simp: py_int_str_def Let_def split: list.splits option.splits)

lemma py_int_caught: "py_int v = Inl e \<Longrightarrow> caught e"
  by (auto simp: py_int_def caught_def split: option.splits dest: py_int_str_caught)


lemma map_filter_append:
  "List.map_filter f (xs @ ys) = List.map_filter f xs @ List.map_filter f ys"
  by (induction xs) (simp_all split: option.splits)

lemma scan_bindings_eq:
  "scan_bindings bs ports = Inr (ports @ List.map_filter emitted bs)"
proof (induction bs arbitrary: ports)
  case Nil
  then show ?case by simp
next
  case (Cons b bs)
  show ?case
  proof (cases "py_int (HostPort b)")
    case (Inl e)
    then have "caught e" by (rule py_int_caught)
    with Inl Cons.IH show ?thesis by simp
  next
    case (Inr n)
    with Cons.IH show ?thesis by simp
  qed
qed

lemma scan_port_map_eq:
  "scan_port_map pm ports = Inr (ports @ List.map_filter emitted (entries pm))"
proof (induction pm arbitrary: ports)
  case Nil
  then show ?case by simp
next
  case (Cons item items)
  obtain k bindings where item: "item = (k, bindings)" by (cases item)
  show ?case
  proof (cases bindings)
    case None
    with item Cons.IH show ?thesis by simp
  next
    case (Some bs)
    with item Cons.IH show ?thesis
      by (simp add: scan_bindings_eq map_filter_append)
  qed
qed

lemma extract_eq:
  "extract_published_ports c = Inr (List.map_filter emitted (entries (port_map_of c)))"
  by (simp add: extract_published_ports_def scan_port_map_eq)



lemmas int_eval = py_int_def py_int_str_def is_space_def digit_val_def



section \<open>Properties of the view-model builder\<close>

text \<open>
  Claim C4, as the code has it. The builder returns a view for every container, and the
  image field of the view is the configured image reference when the key is present,
  whatever its value; when the key is absent it is the first tag of the image, and when
  the image has no tags it is the short digest. The field is not empty when the
  configured reference (if present), the first tag (if any) and the short digest are
  not empty.
\<close>

theorem dto_image_fallback:
  "\<exists>d. dto c = Inr d \<and>
     (\<forall>cf i. Config (attrs c) = Some cf \<and> Image cf = Some i \<longrightarrow> dto_image d = i) \<and>
     (Config (attrs c) = None \<or> (\<exists>cf. Config (attrs c) = Some cf \<and> Image cf = None) \<longrightarrow>
        (\<forall>t ts. tags (c_image c) = t # ts \<longrightarrow> dto_image d = t) \<and>
        (tags (c_image c) = [] \<longrightarrow> dto_image d = image_short_id (c_image c))) \<and>
     ((\<forall>cf i. Config (attrs c) = Some cf \<and> Image cf = Some i \<longrightarrow> i \<noteq> []) \<and>
      (\<forall>t ts. tags (c_image c) = t # ts \<longrightarrow> t \<noteq> []) \<and>
      image_short_id (c_image c) \<noteq> [] \<longrightarrow> dto_image d \<noteq> [])"
proof -
  from extract_eq [of c] obtain ps where ps: "extract_published_ports c = Inr ps" by blast
  let ?fallback = "case tags (c_image c) of t # _ \<Rightarrow> t | [] \<Rightarrow> image_short_id (c_image c)"
  let ?image = "case Config (attrs c) of None \<Rightarrow> ?fallback
                | Some cf \<Rightarrow> (case Image cf of None \<Rightarrow> ?fallback | Some i \<Rightarrow> i)"
  obtain d where d: "dto c = Inr d" and im: "dto_image d = ?image"
    by (simp add: dto_def Let_def ps)
  have 1: "\<forall>cf i. Config (attrs c) = Some cf \<and> Image cf = Some i \<longrightarrow> dto_image d = i"
    by (simp add: im)
  have 2: "Config (attrs c) = None \<or> (\<exists>cf. Config (attrs c) = Some cf \<and> Image cf = None) \<longrightarrow>
        (\<forall>t ts. tags (c_image c) = t # ts \<longrightarrow> dto_image d = t) \<and>
        (tags (c_image c) = [] \<longrightarrow> dto_image d = image_short_id (c_image c))"
    by (auto simp: im)
  have 3: "(\<forall>cf i. Config (attrs c) = Some cf \<and> Image cf = Some i \<longrightarrow> i \<noteq> []) \<and>
      (\<forall>t ts. tags (c_image c) = t # ts \<longrightarrow> t \<noteq> []) \<and>
      image_short_id (c_image c) \<noteq> [] \<longrightarrow> dto_image d \<noteq> []"
    by (auto simp: im split: option.splits list.splits)
  from d 1 2 3 show ?thesis by blast
qed

text \<open>
  The image field can be blank: a configured image reference that is the empty string is
  taken as it is, although the image has a tag.
\<close>

theorem dto_image_blank:
  "dto blank_image_container =
     Inr \<lparr> dto_id = ''7b1e44a90c'', dto_name = ''job'', dto_image = '''',
           dto_status = ''exited'', dto_state = ''unknown'', dto_ports = [] \<rparr>"
  by (simp add: dto_def blank_image_container_def extract_published_ports_def port_map_of_def)

theorem dto_image_fallback_witness:
  "dto web_container =
     Inr \<lparr> dto_id = ''0f3a9c1d2b'', dto_name = ''web'', dto_image = ''nginx:latest'',
           dto_status = ''running'', dto_state = ''running'',
           dto_ports = [\<lparr>host = ''0.0.0.0'', port = 8080\<rparr>, \<lparr>host = ''0.0.0.0'', port = 8080\<rparr>,
                        \<lparr>host = ''127.0.0.1'', port = 22\<rparr>] \<rparr> \<and>
   Config (attrs web_container) = None \<and>
   (\<exists>d. dto untagged_container = Inr d \<and> dto_image d = ''sha256:605c77e624'')"
proof -
  from dto_image_fallback [of web_container] obtain d where
    d: "dto web_container = Inr d" and
    f: "Config (attrs web_container) = None \<or>
          (\<exists>cf. Config (attrs web_container) = Some cf \<and> Image cf = None) \<longrightarrow>
        (\<forall>t ts. tags (c_image web_container) = t # ts \<longrightarrow> dto_image d = t) \<and>
        (tags (c_image web_container) = [] \<longrightarrow> dto_image d = image_short_id (c_image web_container))"
    by blast
  have c: "Config (attrs web_container) = None" by (simp add: web_container_def)
  have "tags (c_image web_container) = [''nginx:latest'']" by (simp add: web_container_def)
  with f c have i: "dto_image d = ''nginx:latest''" by simp
  have w: "dto web_container =
     Inr \<lparr> dto_id = ''0f3a9c1d2b'', dto_name = ''web'', dto_image = ''nginx:latest'',
           dto_status = ''running'', dto_state = ''running'',
           dto_ports = [\<lparr>host = ''0.0.0.0'', port = 8080\<rparr>, \<lparr>host = ''0.0.0.0'', port = 8080\<rparr>,
                        \<lparr>host = ''127.0.0.1'', port = 22\<rparr>] \<rparr>"
    by (simp add: dto_def web_container_def extract_published_ports_def port_map_of_def
        int_eval caught_def)
  from dto_image_fallback [of untagged_container] obtain u where
    u: "dto untagged_container = Inr u" and
    g: "Config (attrs untagged_container) = None \<or>
          (\<exists>cf. Config (attrs untagged_container) = Some cf \<and> Image cf = None) \<longrightarrow>
        (\<forall>t ts. tags (c_image untagged_container) = t # ts \<longrightarrow> dto_image u = t) \<and>
        (tags (c_image untagged_container) = [] \<longrightarrow>
           dto_image u = image_short_id (c_image untagged_container))"
    by blast
  have "\<exists>cf. Config (attrs untagged_container) = Some cf \<and> Image cf = None"
    by (simp add: untagged_container_def)
  moreover have "tags (c_image untagged_container) = []"
    "image_short_id (c_image untagged_container) = ''sha256:605c77e624''"
    by (simp_all add: untagged_container_def)
  ultimately have "dto_image u = ''sha256:605c77e624''" using g by simp
  with u w c show ?thesis by blast
qed

section \<open>Properties of the access gate\<close>

lemma startswith_Cons: "startswith s (p # ps) \<longleftrightarrow> (\<exists>cs. s = p # cs \<and> startswith cs ps)"
  by (cases s) (auto simp: startswith_def)

lemma py_lower_char_space: "py_lower_char c = CHR '' '' \<longleftrightarrow> c = CHR '' ''"
  by (simp add: py_lower_char_def)

lemma py_lower_Cons: "py_lower s = c # cs \<longleftrightarrow> (\<exists>x xs. s = x # xs \<and> py_lower_char x = c \<and> py_lower xs = cs)"
  by (auto simp: py_lower_def map_eq_Cons_conv)

lemma py_split1_first_space:
  "CHR '' '' \<notin> set scheme \<Longrightarrow> py_split1 CHR '' '' (scheme @ CHR '' '' # rest) = [scheme, rest]"
proof -
  assume ns: "CHR '' '' \<notin> set scheme"
  then have d: "dropWhile (\<lambda>c. c \<noteq> CHR '' '') (scheme @ CHR '' '' # rest) = CHR '' '' # rest"
    by (induction scheme) auto
  from ns have t: "takeWhile (\<lambda>c. c \<noteq> CHR '' '') (scheme @ CHR '' '' # rest) = scheme"
    by (induction scheme) auto
  show ?thesis unfolding py_split1_def d t by simp
qed

lemma bearer_shape:
  assumes "startswith (py_lower a) ''bearer ''"
  shows "\<exists>scheme. a = scheme @ CHR '' '' # drop 7 a \<and> CHR '' '' \<notin> set scheme \<and>
           py_lower scheme = ''bearer''"
proof -
  from assms obtain c1 c2 c3 c4 c5 c6 rest where
    a: "a = c1 # c2 # c3 # c4 # c5 # c6 # CHR '' '' # rest" and
    l: "py_lower_char c1 = CHR ''b''" "py_lower_char c2 = CHR ''e''" "py_lower_char c3 = CHR ''a''"
       "py_lower_char c4 = CHR ''r''" "py_lower_char c5 = CHR ''e''" "py_lower_char c6 = CHR ''r''"
    by (auto simp: startswith_Cons py_lower_Cons py_lower_char_space)
  from l have "c1 \<noteq> CHR '' ''" "c2 \<noteq> CHR '' ''" "c3 \<noteq> CHR '' ''" "c4 \<noteq> CHR '' ''"
    "c5 \<noteq> CHR '' ''" "c6 \<noteq> CHR '' ''"
    by (auto simp: py_lower_char_def)
  with a l show ?thesis
    by (intro exI [of _ "[c1, c2, c3, c4, c5, c6]"]) (simp add: py_lower_def)
qed

lemma auth_header_lookup:
  "py_or (headers_get req ''authorization'') (headers_get req ''Authorization'') =
     headers_get req ''Authorization''"
  by (simp add: py_or_def headers_get_def py_lower_def py_lower_char_def)

lemma require_auth_disabled: "\<not> truthy secret \<Longrightarrow> require_auth secret req = Inr ()"
  by (simp add: require_auth_def)

lemma require_auth_no_bearer:
  assumes "truthy secret"
    and "headers_get req ''Authorization'' = None \<or>
         (\<exists>a. headers_get req ''Authorization'' = Some a \<and> \<not> startswith (py_lower a) ''bearer '')"
  shows "require_auth secret req = Inl (HTTPException 401 ''Missing bearer token'')"
  using assms unfolding require_auth_def auth_header_lookup
  by (auto simp: Let_def)

lemma require_auth_bearer:
  assumes "truthy secret"
    and h: "headers_get req ''Authorization'' = Some (scheme @ CHR '' '' # rest)"
    and ns: "CHR '' '' \<notin> set scheme"
    and sch: "py_lower scheme = ''bearer''"
  shows "require_auth secret req =
           (if Some rest = secret then Inr () else Inl (HTTPException 403 ''Invalid token''))"
proof -
  have sw: "startswith (py_lower (scheme @ CHR '' '' # rest)) ''bearer ''"
    using sch by (simp add: startswith_def py_lower_def py_lower_char_def)
  have au: "py_or (headers_get req ''authorization'') (headers_get req ''Authorization'') =
              Some (scheme @ CHR '' '' # rest)"
    using auth_header_lookup [of req] h by (rule trans)
  from \<open>truthy secret\<close> sw show ?thesis
    unfolding require_auth_def au
    by (simp add: Let_def py_split1_first_space [OF ns] py_index_def)
qed

lemma require_auth_bearer_prefix:
  assumes t: "truthy secret"
    and h: "headers_get req ''Authorization'' = Some a"
    and sw: "startswith (py_lower a) ''bearer ''"
  shows "require_auth secret req =
           (if Some (drop 7 a) = secret then Inr () else Inl (HTTPException 403 ''Invalid token''))"
proof -
  from bearer_shape [OF sw] obtain scheme where
    a: "a = scheme @ CHR '' '' # drop 7 a" and ns: "CHR '' '' \<notin> set scheme"
    and sch: "py_lower scheme = ''bearer''"
    by blast
  from h a have "headers_get req ''Authorization'' = Some (scheme @ CHR '' '' # drop 7 a)"
    by simp
  from require_auth_bearer [OF t this ns sch] show ?thesis .
qed

lemma require_auth_result_cases:
  "require_auth secret req = Inr () \<or>
   require_auth secret req = Inl (HTTPException 401 ''Missing bearer token'') \<or>
   require_auth secret req = Inl (HTTPException 403 ''Invalid token'')"
proof (cases "truthy secret")
  case False
  then show ?thesis by (simp add: require_auth_disabled)
next
  case True
  show ?thesis
  proof (cases "headers_get req ''Authorization''")
    case None
    with True show ?thesis by (simp add: require_auth_no_bearer)
  next
    case (Some a)
    show ?thesis
    proof (cases "startswith (py_lower a) ''bearer ''")
      case False
      with True Some show ?thesis by (simp add: require_auth_no_bearer)
    next
      case sw: True
      from require_auth_bearer_prefix [OF True Some sw] show ?thesis by simp
    qed
  qed
qed

text \<open>
  Claim C10. With a secret set (present and not empty): when the header is a scheme
  without a space, a space and a remainder, and the scheme is \<^verbatim>\<open>bearer\<close> in any mix of
  upper and lower case, the request is admitted exactly when the whole remainder after
  that first space equals the secret, and is rejected with 403 otherwise; a header whose
  lower-cased text starts with \<^verbatim>\<open>bearer\<close> and a space has this shape; and a header that
  does not start so is rejected with 401.
\<close>

theorem require_auth_bearer_scheme:
  assumes "secret = Some s" and "s \<noteq> []"
  shows
   "(\<forall>scheme rest.
       headers_get req ''Authorization'' = Some (scheme @ CHR '' '' # rest) \<and>
       CHR '' '' \<notin> set scheme \<and> py_lower scheme = ''bearer'' \<longrightarrow>
         require_auth secret req =
           (if rest = s then Inr () else Inl (HTTPException 403 ''Invalid token''))) \<and>
    (\<forall>a. headers_get req ''Authorization'' = Some a \<and> startswith (py_lower a) ''bearer '' \<longrightarrow>
         (\<exists>scheme. a = scheme @ CHR '' '' # drop 7 a \<and> CHR '' '' \<notin> set scheme \<and>
                   py_lower scheme = ''bearer'')) \<and>
    (\<forall>a. headers_get req ''Authorization'' = Some a \<and> \<not> startswith (py_lower a) ''bearer '' \<longrightarrow>
         require_auth secret req = Inl (HTTPException 401 ''Missing bearer token''))"
proof -
  from assms have t: "truthy secret" by (simp add: truthy_def)
  show ?thesis
  proof (intro conjI allI impI)
    fix scheme rest
    assume "headers_get req ''Authorization'' = Some (scheme @ CHR '' '' # rest) \<and>
       CHR '' '' \<notin> set scheme \<and> py_lower scheme = ''bearer''"
    then have "require_auth secret req =
           (if Some rest = secret then Inr () else Inl (HTTPException 403 ''Invalid token''))"
      using require_auth_bearer [OF t] by blast
    with assms show "require_auth secret req =
           (if rest = s then Inr () else Inl (HTTPException 403 ''Invalid token''))"
      by simp
  next
    fix a
    assume "headers_get req ''Authorization'' = Some a \<and> startswith (py_lower a) ''bearer ''"
    then show "\<exists>scheme. a = scheme @ CHR '' '' # drop 7 a \<and> CHR '' '' \<notin> set scheme \<and>
                   py_lower scheme = ''bearer''"
      using bearer_shape by blast
  next
    fix a
    assume "headers_get req ''Authorization'' = Some a \<and> \<not> startswith (py_lower a) ''bearer ''"
    then show "require_auth secret req = Inl (HTTPException 401 ''Missing bearer token'')"
      using require_auth_no_bearer [OF t] by blast
  qed
qed

text \<open>
  Claim C3, as the code has it. Without a secret (unset or empty) every request is
  admitted. With a secret set: a request without an Authorization header is rejected
  with 401, and so is a request whose header does not start with the bearer scheme; a
  request whose header starts with the bearer scheme and whose token differs from the
  secret is rejected with 403; a request whose bearer token equals the secret is
  admitted.
\<close>

theorem require_auth_by_header:
  "(secret = None \<or> secret = Some [] \<longrightarrow> require_auth secret req = Inr ()) \<and>
   (secret = Some s \<and> s \<noteq> [] \<longrightarrow>
      (headers_get req ''Authorization'' = None \<longrightarrow>
         require_auth secret req = Inl (HTTPException 401 ''Missing bearer token'')) \<and>
      (\<forall>a. headers_get req ''Authorization'' = Some a \<and>
            \<not> startswith (py_lower a) ''bearer '' \<longrightarrow>
         require_auth secret req = Inl (HTTPException 401 ''Missing bearer token'')) \<and>
      (\<forall>a. headers_get req ''Authorization'' = Some a \<and>
            startswith (py_lower a) ''bearer '' \<and> drop 7 a \<noteq> s \<longrightarrow>
         require_auth secret req = Inl (HTTPException 403 ''Invalid token'')) \<and>
      (\<forall>a. headers_get req ''Authorization'' = Some a \<and>
            startswith (py_lower a) ''bearer '' \<and> drop 7 a = s \<longrightarrow>
         require_auth secret req = Inr ()))"
proof (intro conjI impI allI)
  assume "secret = None \<or> secret = Some []"
  then have "\<not> truthy secret" by (auto simp: truthy_def)
  then show "require_auth secret req = Inr ()" by (rule require_auth_disabled)
next
  assume "secret = Some s \<and> s \<noteq> []" and "headers_get req ''Authorization'' = None"
  then show "require_auth secret req = Inl (HTTPException 401 ''Missing bearer token'')"
    by (simp add: require_auth_no_bearer truthy_def)
next
  fix a
  assume "secret = Some s \<and> s \<noteq> []"
    and "headers_get req ''Authorization'' = Some a \<and> \<not> startswith (py_lower a) ''bearer ''"
  then show "require_auth secret req = Inl (HTTPException 401 ''Missing bearer token'')"
    by (simp add: require_auth_no_bearer truthy_def)
next
  fix a
  assume s: "secret = Some s \<and> s \<noteq> []"
    and h: "headers_get req ''Authorization'' = Some a \<and>
            startswith (py_lower a) ''bearer '' \<and> drop 7 a \<noteq> s"
  from s have t: "truthy secret" by (simp add: truthy_def)
  from require_auth_bearer_prefix [OF t, of req a] h s
  show "require_auth secret req = Inl (HTTPException 403 ''Invalid token'')" by simp
next
  fix a
  assume s: "secret = Some s \<and> s \<noteq> []"
    and h: "headers_get req ''Authorization'' = Some a \<and>
            startswith (py_lower a) ''bearer '' \<and> drop 7 a = s"
  from s have t: "truthy secret" by (simp add: truthy_def)
  from require_auth_bearer_prefix [OF t, of req a] h s
  show "require_auth secret req = Inr ()" by simp
qed

lemmas gate_eval = require_auth_def truthy_def py_or_def headers_get_def py_lower_def
  py_lower_char_def startswith_def py_split1_def py_index_def

text \<open>
  A header that is present and carries no bearer scheme is rejected with 401, not with
  403, although what it carries differs from the secret.
\<close>

theorem require_auth_basic_header:
  "headers_get \<lparr>headers = [(''Authorization'', ''Basic wrong'')]\<rparr> ''Authorization'' =
     Some ''Basic wrong'' \<and>
   require_auth (Some ''s3cret'') \<lparr>headers = [(''Authorization'', ''Basic wrong'')]\<rparr> =
     Inl (HTTPException 401 ''Missing bearer token'')"
  by (simp add: gate_eval)

theorem require_auth_bearer_scheme_witness:
  "require_auth (Some ''s3cret'') \<lparr>headers = [(''authorization'', ''bearer s3cret'')]\<rparr> = Inr () \<and>
   require_auth (Some ''s3cret'') \<lparr>headers = [(''authorization'', ''BEARER s3cret'')]\<rparr> = Inr () \<and>
   require_auth (Some ''a b'') \<lparr>headers = [(''authorization'', ''Bearer a b'')]\<rparr> = Inr () \<and>
   require_auth (Some ''s3cret'') \<lparr>headers = [(''authorization'', ''Basic s3cret'')]\<rparr> =
     Inl (HTTPException 401 ''Missing bearer token'')"
proof -
  have s: "Some ''s3cret'' = Some ''s3cret''" "''s3cret'' \<noteq> []"
    and ab: "Some ''a b'' = Some ''a b''" "''a b'' \<noteq> []"
    by simp_all
  have 1: "require_auth (Some ''s3cret'') \<lparr>headers = [(''authorization'', ''bearer s3cret'')]\<rparr> = Inr ()"
    using require_auth_bearer_scheme [OF s, of "\<lparr>headers = [(''authorization'', ''bearer s3cret'')]\<rparr>",
        THEN conjunct1, THEN spec, THEN spec, THEN mp, of "''bearer''" "''s3cret''"]
    by (simp add: headers_get_def py_lower_def py_lower_char_def)
  have 2: "require_auth (Some ''s3cret'') \<lparr>headers = [(''authorization'', ''BEARER s3cret'')]\<rparr> = Inr ()"
    using require_auth_bearer_scheme [OF s, of "\<lparr>headers = [(''authorization'', ''BEARER s3cret'')]\<rparr>",
        THEN conjunct1, THEN spec, THEN spec, THEN mp, of "''BEARER''" "''s3cret''"]
    by (simp add: headers_get_def py_lower_def py_lower_char_def)
  have 3: "require_auth (Some ''a b'') \<lparr>headers = [(''authorization'', ''Bearer a b'')]\<rparr> = Inr ()"
    using require_auth_bearer_scheme [OF ab, of "\<lparr>headers = [(''authorization'', ''Bearer a b'')]\<rparr>",
        THEN conjunct1, THEN spec, THEN spec, THEN mp, of "''Bearer''" "''a b''"]
    by (simp add: headers_get_def py_lower_def py_lower_char_def)
  have 4: "require_auth (Some ''s3cret'') \<lparr>headers = [(''authorization'', ''Basic s3cret'')]\<rparr> =
     Inl (HTTPException 401 ''Missing bearer token'')"
    using require_auth_bearer_scheme [OF s, of "\<lparr>headers = [(''authorization'', ''Basic s3cret'')]\<rparr>",
        THEN conjunct2, THEN conjunct2, THEN spec, THEN mp, of "''Basic s3cret''"]
    by (simp add: headers_get_def py_lower_def py_lower_char_def startswith_def)
  from 1 2 3 4 show ?thesis by (intro conjI)
qed

theorem require_auth_by_header_witness:
  "require_auth None \<lparr>headers = []\<rparr> = Inr () \<and>
   require_auth (Some ''s3cret'') \<lparr>headers = [(''authorization'', ''Bearer s3cret'')]\<rparr> = Inr () \<and>
   require_auth (Some ''s3cret'') \<lparr>headers = [(''authorization'', ''Bearer wrong'')]\<rparr> =
     Inl (HTTPException 403 ''Invalid token'') \<and>
   require_auth (Some ''s3cret'') \<lparr>headers = []\<rparr> =
     Inl (HTTPException 401 ''Missing bearer token'')"
proof -
  have s: "Some ''s3cret'' = Some ''s3cret'' \<and> ''s3cret'' \<noteq> []" by simp
  have 1: "require_auth None \<lparr>headers = []\<rparr> = Inr ()"
    using require_auth_by_header [of None "\<lparr>headers = []\<rparr>", THEN conjunct1] by simp
  have 2: "require_auth (Some ''s3cret'') \<lparr>headers = [(''authorization'', ''Bearer s3cret'')]\<rparr> = Inr ()"
    using require_auth_by_header [of "Some ''s3cret''" "\<lparr>headers = [(''authorization'', ''Bearer s3cret'')]\<rparr>" "''s3cret''",
        THEN conjunct2, THEN mp, OF s, THEN conjunct2, THEN conjunct2, THEN conjunct2,
        THEN spec, THEN mp, of "''Bearer s3cret''"]
    by (simp add: headers_get_def py_lower_def py_lower_char_def startswith_def)
  have 3: "require_auth (Some ''s3cret'') \<lparr>headers = [(''authorization'', ''Bearer wrong'')]\<rparr> =
     Inl (HTTPException 403 ''Invalid token'')"
    using require_auth_by_header [of "Some ''s3cret''" "\<lparr>headers = [(''authorization'', ''Bearer wrong'')]\<rparr>" "''s3cret''",
        THEN conjunct2, THEN mp, OF s, THEN conjunct2, THEN conjunct2, THEN conjunct1,
        THEN spec, THEN mp, of "''Bearer wrong''"]
    by (simp add: headers_get_def py_lower_def py_lower_char_def startswith_def)
  have 4: "require_auth (Some ''s3cret'') \<lparr>headers = []\<rparr> =
     Inl (HTTPException 401 ''Missing bearer token'')"
    using require_auth_by_header [of "Some ''s3cret''" "\<lparr>headers = []\<rparr>" "''s3cret''",
        THEN conjunct2, THEN mp, OF s, THEN conjunct1, THEN mp]
    by (simp add: headers_get_def)
  from 1 2 3 4 show ?thesis by (intro conjI)
qed

section \<open>Properties of the action endpoints\<close>

text \<open>
  Claim C2, as the code has it. With actions disabled, each of the three action
  endpoints rejects every request and leaves the runtime as it was, so no call reaches
  the runtime client. The access gate runs first: a request it admits is rejected with
  403 by the endpoint; a request it rejects keeps the gate's own rejection, which is 401
  for a missing bearer token and 403 for a wrong one.
\<close>

theorem actions_disabled_rejects:
  assumes "\<not> ALLOW_ACTIONS cfg"
  shows "\<forall>endpoint \<in> set [start_container, stop_container, restart_container].
           snd (endpoint cfg req nm rt) = rt \<and>
           (require_auth (JWT_SECRET cfg) req = Inr () \<longrightarrow>
              fst (endpoint cfg req nm rt) = Inl (HTTPException 403 ''Actions disabled'')) \<and>
           (\<forall>e. require_auth (JWT_SECRET cfg) req = Inl e \<longrightarrow>
              fst (endpoint cfg req nm rt) = Inl e \<and>
              (e = HTTPException 401 ''Missing bearer token'' \<or>
               e = HTTPException 403 ''Invalid token''))"
  using assms require_auth_result_cases [of "JWT_SECRET cfg" req]
  by (auto simp: start_container_def stop_container_def restart_container_def
      split: sum.splits)

text \<open>
  With a secret set and actions disabled, a request without a bearer token is rejected
  with 401, not with 403.
\<close>

theorem actions_disabled_missing_token:
  "\<not> ALLOW_ACTIONS locked_config \<and>
   start_container locked_config \<lparr>headers = []\<rparr> ''web'' demo_runtime =
     (Inl (HTTPException 401 ''Missing bearer token''), demo_runtime)"
  by (simp add: locked_config_def start_container_def gate_eval)

theorem actions_disabled_rejects_witness:
  "\<not> ALLOW_ACTIONS locked_config \<and>
   start_container locked_config \<lparr>headers = [(''authorization'', ''Bearer s3cret'')]\<rparr>
       ''web'' demo_runtime =
     (Inl (HTTPException 403 ''Actions disabled''), demo_runtime) \<and>
   stop_container locked_config \<lparr>headers = [(''authorization'', ''Bearer s3cret'')]\<rparr>
       ''web'' demo_runtime =
     (Inl (HTTPException 403 ''Actions disabled''), demo_runtime) \<and>
   restart_container locked_config \<lparr>headers = [(''authorization'', ''Bearer s3cret'')]\<rparr>
       ''web'' demo_runtime =
     (Inl (HTTPException 403 ''Actions disabled''), demo_runtime) \<and>
   rt_calls (snd (start_container (locked_config\<lparr>ALLOW_ACTIONS := True\<rparr>)
       \<lparr>headers = [(''authorization'', ''Bearer s3cret'')]\<rparr> ''web'' demo_runtime)) =
     [Get ''web'', Start ''web'']"
proof -
  let ?req = "\<lparr>headers = [(''authorization'', ''Bearer s3cret'')]\<rparr>"
  have off: "\<not> ALLOW_ACTIONS locked_config" by (simp add: locked_config_def)
  have ok: "require_auth (JWT_SECRET locked_config) ?req = Inr ()"
    by (simp add: locked_config_def gate_eval)
  from actions_disabled_rejects [OF off, of ?req "''web''" demo_runtime] ok
  have "\<forall>endpoint \<in> set [start_container, stop_container, restart_container].
          snd (endpoint locked_config ?req ''web'' demo_runtime) = demo_runtime \<and>
          fst (endpoint locked_config ?req ''web'' demo_runtime) =
            Inl (HTTPException 403 ''Actions disabled'')"
    by simp
  then have rejected:
    "start_container locked_config ?req ''web'' demo_runtime =
       (Inl (HTTPException 403 ''Actions disabled''), demo_runtime)"
    "stop_container locked_config ?req ''web'' demo_runtime =
       (Inl (HTTPException 403 ''Actions disabled''), demo_runtime)"
    "restart_container locked_config ?req ''web'' demo_runtime =
       (Inl (HTTPException 403 ''Actions disabled''), demo_runtime)"
    by (simp_all add: prod_eq_iff)
  have enabled:
    "rt_calls (snd (start_container (locked_config\<lparr>ALLOW_ACTIONS := True\<rparr>) ?req ''web''
        demo_runtime)) = [Get ''web'', Start ''web'']"
    by (simp add: start_container_def locked_config_def gate_eval containers_get_def
        container_start_def record_call_def demo_runtime_def web_container_def)
  from off rejected enabled show ?thesis by (intro conjI)
qed

section \<open>Properties of the logs endpoint\<close>

lemma py_decode_ignore_total: "\<exists>text. py_decode Ignore bs = Inr text"
proof (induction bs rule: length_induct)
  case (1 bs)
  show ?case
  proof (cases bs)
    case Nil
    then show ?thesis by simp
  next
    case (Cons b rest)
    obtain r n where st: "utf8_step b rest = (r, n)" by (cases "utf8_step b rest")
    have "length (drop (n - 1) rest) < length bs" using Cons by simp
    with "1" obtain decoded where t: "py_decode Ignore (drop (n - 1) rest) = Inr decoded" by blast
    show ?thesis
    proof (cases r)
      case None
      with Cons st t show ?thesis by simp
    next
      case (Some cp)
      with Cons st t show ?thesis by simp
    qed
  qed
qed

text \<open>
  Claim C8. A request without the tail parameter is handled as one with tail 200.
  Decoding with the handler that ignores errors returns a text for every byte sequence.
  When the access gate admits the request and the runtime knows the container, the
  endpoint answers with the decoded log bytes as plain text, after one lookup of the
  container and one fetch of its logs with the tail length.
\<close>

theorem container_logs_plain_text:
  "container_logs cfg req nm None rt = container_logs cfg req nm (Some 200) rt \<and>
   (\<forall>bs. \<exists>text. py_decode Ignore bs = Inr text) \<and>
   (\<forall>c. require_auth (JWT_SECRET cfg) req = Inr () \<and> map_of (rt_containers rt) nm = Some c \<longrightarrow>
      (\<exists>text.
         py_decode Ignore (rt_logs rt (name c) (case tail of None \<Rightarrow> 200 | Some n \<Rightarrow> n)) =
           Inr text \<and>
         fst (container_logs cfg req nm tail rt) = Inr (PlainText text) \<and>
         rt_calls (snd (container_logs cfg req nm tail rt)) =
           rt_calls rt @ [Get nm, Logs (name c) (case tail of None \<Rightarrow> 200 | Some n \<Rightarrow> n)]))"
proof (intro conjI allI impI)
  show "container_logs cfg req nm None rt = container_logs cfg req nm (Some 200) rt"
    by (simp add: container_logs_def)
next
  fix bs
  show "\<exists>text. py_decode Ignore bs = Inr text" by (rule py_decode_ignore_total)
next
  fix c
  let ?t = "case tail of None \<Rightarrow> 200 | Some n \<Rightarrow> n"
  assume a: "require_auth (JWT_SECRET cfg) req = Inr () \<and> map_of (rt_containers rt) nm = Some c"
  from py_decode_ignore_total obtain decoded where
    t: "py_decode Ignore (rt_logs rt (name c) ?t) = Inr decoded" by blast
  with a have "fst (container_logs cfg req nm tail rt) = Inr (PlainText decoded) \<and>
         rt_calls (snd (container_logs cfg req nm tail rt)) =
           rt_calls rt @ [Get nm, Logs (name c) ?t]"
    by (simp add: container_logs_def containers_get_def container_fetch_logs_def record_call_def)
  with t show "\<exists>text.
         py_decode Ignore (rt_logs rt (name c) ?t) = Inr text \<and>
         fst (container_logs cfg req nm tail rt) = Inr (PlainText text) \<and>
         rt_calls (snd (container_logs cfg req nm tail rt)) =
           rt_calls rt @ [Get nm, Logs (name c) ?t]"
    by blast
qed

theorem container_logs_plain_text_witness:
  "fst (container_logs open_config \<lparr>headers = []\<rparr> ''web'' None demo_runtime) =
     Inr (PlainText [111, 107, 233, 10]) \<and>
   rt_calls (snd (container_logs open_config \<lparr>headers = []\<rparr> ''web'' None demo_runtime)) =
     [Get ''web'', Logs ''web'' 200] \<and>
   py_decode Strict (rt_logs demo_runtime ''web'' 200) = Inl UnicodeDecodeError"
proof -
  let ?req = "\<lparr>headers = []\<rparr>"
  have pre: "require_auth (JWT_SECRET open_config) ?req = Inr () \<and>
             map_of (rt_containers demo_runtime) ''web'' = Some web_container"
    by (simp add: open_config_def demo_runtime_def require_auth_def truthy_def)
  have bytes: "rt_logs demo_runtime ''web'' 200 = [0x6F, 0x6B, 0xFF, 0xC3, 0xA9, 0xE2, 0x82, 0x0A]"
    by (simp add: demo_runtime_def)
  have dec: "py_decode Ignore (rt_logs demo_runtime ''web'' 200) = Inr [111, 107, 233, 10]"
    unfolding bytes by (simp add: utf8_step_def is_cont_def)
  have strict: "py_decode Strict (rt_logs demo_runtime ''web'' 200) = Inl UnicodeDecodeError"
    unfolding bytes by (simp add: utf8_step_def is_cont_def)
  from container_logs_plain_text [of open_config ?req "''web''" demo_runtime None, THEN conjunct2, THEN conjunct2,
      THEN spec, THEN mp, OF pre]
  obtain decoded where
    d: "py_decode Ignore (rt_logs demo_runtime (name web_container) 200) = Inr decoded"
    and r: "fst (container_logs open_config ?req ''web'' None demo_runtime) = Inr (PlainText decoded)"
    and k: "rt_calls (snd (container_logs open_config ?req ''web'' None demo_runtime)) =
              rt_calls demo_runtime @ [Get ''web'', Logs (name web_container) 200]"
    by auto
  have nm: "name web_container = ''web''" by (simp add: web_container_def)
  from d dec have "decoded = [111, 107, 233, 10]" by (simp add: nm)
  moreover have "rt_calls demo_runtime = []" by (simp add: demo_runtime_def)
  ultimately show ?thesis using r k strict by (simp add: nm)
qed

end
